theory Spec2Isabelle
  imports
    Complex_Main
    "HOL-Library.Sublist"
    "HOL-Library.Multiset"
    "HOL-Library.Char_ord"
    "HOL-Library.List_Lexorder"
begin

section \<open>The incident dashboard (app.py): data model\<close>

text \<open>
  The script reads \<^verbatim>\<open>cleaned_incidents.csv\<close> into a pandas DataFrame and works on seven
  of its columns. A row is a record with one field per column; a cell that pandas reads as
  missing (NaN) is \<open>None\<close>. The script itself expects missing cells: three of the four
  option lists are built with \<^verbatim>\<open>dropna()\<close>.

  \<^verbatim>\<open>Number of deaths\<close> is an integer column without missing cells (pandas reads it as
  int64, which has no missing marker); \<^verbatim>\<open>Duration_days\<close> is a float64 column, its cells
  are rationals or missing. Sums and means are computed exactly: the int64 and float64
  arithmetic of pandas agrees with that as long as no sum leaves the exactly representable
  range (an int64 sum beyond it wraps around silently, which is not modelled). The type of
  \<^verbatim>\<open>Identifier\<close> is left open.
\<close>

record 'i incident =
  States :: "string option"
  Year :: "int option"
  Month_Name :: "string option"
  Incident_Type :: "string option"
  Identifier :: "'i option"
  Number_of_deaths :: int
  Duration_days :: "rat option"

type_synonym 'i dataframe = "'i incident list"

text \<open>
  A value that a select box can hold: the entries of an option list are the string
  \<^verbatim>\<open>"All"\<close>, strings and integers taken from a column, and (for the month list) NaN.
\<close>

datatype pyval = PStr string | PInt int | PNaN

definition cell_str :: "string option \<Rightarrow> pyval" where
  "cell_str c = (case c of None \<Rightarrow> PNaN | Some s \<Rightarrow> PStr s)"

text \<open>
  Elementwise \<^verbatim>\<open>column == value\<close>: a missing cell equals nothing, NaN equals nothing
  (not even a missing cell), and values of different types are unequal.
\<close>

definition eq_str :: "string option \<Rightarrow> pyval \<Rightarrow> bool" where
  "eq_str c v = (case c of None \<Rightarrow> False | Some s \<Rightarrow> v = PStr s)"

definition eq_int :: "int option \<Rightarrow> pyval \<Rightarrow> bool" where
  "eq_int c v = (case c of None \<Rightarrow> False | Some n \<Rightarrow> v = PInt n)"

subsection \<open>pandas primitives\<close>

text \<open>\<^verbatim>\<open>Series.dropna()\<close>: the present cells, in order.\<close>

fun dropna :: "'a option list \<Rightarrow> 'a list" where
  "dropna [] = []"
| "dropna (None # cs) = dropna cs"
| "dropna (Some v # cs) = v # dropna cs"

text \<open>\<^verbatim>\<open>Series.unique()\<close>: the distinct values in order of first appearance.\<close>

fun unique :: "'a list \<Rightarrow> 'a list" where
  "unique [] = []"
| "unique (x # xs) = x # unique (filter (\<lambda>y. y \<noteq> x) xs)"

section \<open>Sidebar: the option lists (lines 26-40)\<close>

definition state_options :: "'i dataframe \<Rightarrow> pyval list" where
  "state_options df = PStr ''All'' # map PStr (sort (unique (dropna (map States df))))"

definition year_options :: "'i dataframe \<Rightarrow> pyval list" where
  "year_options df = PStr ''All'' # map PInt (sort (unique (dropna (map Year df))))"

definition month_order :: "'i dataframe \<Rightarrow> string option list" where
  "month_order df = unique (map Month_Name df)"

definition month_options :: "'i dataframe \<Rightarrow> pyval list" where
  "month_options df = PStr ''All'' # map cell_str (month_order df)"

definition incident_options :: "'i dataframe \<Rightarrow> pyval list" where
  "incident_options df =
     PStr ''All'' # map PStr (sort (unique (dropna (map Incident_Type df))))"

section \<open>Applying the filters (lines 45-57)\<close>

text \<open>
  Each of the four \<^verbatim>\<open>if\<close> statements keeps, when its selection is not the string
  \<^verbatim>\<open>"All"\<close>, the rows whose cell equals the selection.
\<close>

definition filter_state :: "pyval \<Rightarrow> 'i dataframe \<Rightarrow> 'i dataframe" where
  "filter_state state_filter df =
     (if state_filter \<noteq> PStr ''All''
      then filter (\<lambda>r. eq_str (States r) state_filter) df else df)"

definition filter_year :: "pyval \<Rightarrow> 'i dataframe \<Rightarrow> 'i dataframe" where
  "filter_year year_filter df =
     (if year_filter \<noteq> PStr ''All''
      then filter (\<lambda>r. eq_int (Year r) year_filter) df else df)"

definition filter_month :: "pyval \<Rightarrow> 'i dataframe \<Rightarrow> 'i dataframe" where
  "filter_month month_filter df =
     (if month_filter \<noteq> PStr ''All''
      then filter (\<lambda>r. eq_str (Month_Name r) month_filter) df else df)"

definition filter_incident :: "pyval \<Rightarrow> 'i dataframe \<Rightarrow> 'i dataframe" where
  "filter_incident incident_filter df =
     (if incident_filter \<noteq> PStr ''All''
      then filter (\<lambda>r. eq_str (Incident_Type r) incident_filter) df else df)"

definition filtered_df ::
  "'i dataframe \<Rightarrow> pyval \<Rightarrow> pyval \<Rightarrow> pyval \<Rightarrow> pyval \<Rightarrow> 'i dataframe" where
  "filtered_df df state_filter year_filter month_filter incident_filter =
     filter_incident incident_filter
       (filter_month month_filter
         (filter_year year_filter
           (filter_state state_filter df)))"

text \<open>
  The reading of a filter selection as one predicate on rows: the logical AND of the four
  constraints, \<^verbatim>\<open>"All"\<close> imposing none.
\<close>

definition satisfies :: "pyval \<Rightarrow> pyval \<Rightarrow> pyval \<Rightarrow> pyval \<Rightarrow> 'i incident \<Rightarrow> bool" where
  "satisfies s y m t r \<longleftrightarrow>
     (s = PStr ''All'' \<or> eq_str (States r) s) \<and>
     (y = PStr ''All'' \<or> eq_int (Year r) y) \<and>
     (m = PStr ''All'' \<or> eq_str (Month_Name r) m) \<and>
     (t = PStr ''All'' \<or> eq_str (Incident_Type r) t)"

section \<open>Metrics (lines 62-69)\<close>

definition total_incidents :: "'i dataframe \<Rightarrow> nat" where
  "total_incidents fv = length fv"

definition total_deaths :: "'i dataframe \<Rightarrow> int" where
  "total_deaths fv = sum_list (map Number_of_deaths fv)"

text \<open>
  \<^verbatim>\<open>Series.mean()\<close> skips missing cells; with no cell left the result is NaN, here
  \<open>None\<close>.
\<close>

definition mean :: "rat option list \<Rightarrow> rat option" where
  "mean cs = (case dropna cs of [] \<Rightarrow> None
              | v # vs \<Rightarrow> Some (sum_list (v # vs) / of_nat (length (v # vs))))"

definition avg_duration :: "'i dataframe \<Rightarrow> rat option" where
  "avg_duration fv = mean (map Duration_days fv)"

subsection \<open>The format specifications of the three f-strings\<close>

definition digit_char :: "nat \<Rightarrow> char" where
  "digit_char d = ''0123456789'' ! d"

fun str_nat :: "nat \<Rightarrow> string" where
  "str_nat n = (if n < 10 then [digit_char n]
                else str_nat (n div 10) @ [digit_char (n mod 10)])"

declare str_nat.simps [simp del]

text \<open>Thousands separators, on the reversed digit string.\<close>

fun group3 :: "string \<Rightarrow> string" where
  "group3 (a # b # c # d # ds) = a # b # c # CHR '','' # group3 (d # ds)"
| "group3 ds = ds"

text \<open>\<^verbatim>\<open>f"{n:,}"\<close> for an integer.\<close>

definition fmt_comma :: "int \<Rightarrow> string" where
  "fmt_comma n = (if n < 0 then ''-'' else []) @ rev (group3 (rev (str_nat (nat \<bar>n\<bar>))))"

definition round_half_even :: "rat \<Rightarrow> int" where
  "round_half_even q =
     (let f = \<lfloor>q\<rfloor>; d = q - of_int f
      in if d < 1 / 2 then f else if 1 / 2 < d then f + 1
         else if even f then f else f + 1)"

text \<open>
  \<^verbatim>\<open>f"{x:.1f}"\<close> for a float: NaN prints as \<^verbatim>\<open>nan\<close>. A number is rounded here from
  its exact rational value, where the code rounds the float64 nearest to it; the two can
  differ in the last digit (0.35 prints as \<^verbatim>\<open>0.3\<close> in the code). Only the NaN case is
  used below.
\<close>

definition fmt_1f :: "rat option \<Rightarrow> string" where
  "fmt_1f x = (case x of None \<Rightarrow> ''nan''
     | Some q \<Rightarrow>
         (let n = nat (round_half_even (\<bar>q\<bar> * 10))
          in (if q < 0 then ''-'' else []) @ str_nat (n div 10) @ ''.'' @ str_nat (n mod 10)))"

text \<open>The texts of the three \<^verbatim>\<open>col.metric\<close> calls.\<close>

definition metric_texts :: "'i dataframe \<Rightarrow> string \<times> string \<times> string" where
  "metric_texts fv =
     (fmt_comma (int (total_incidents fv)), fmt_comma (total_deaths fv),
      fmt_1f (avg_duration fv))"

section \<open>Group-by projections (lines 77-80, 99-102, 117-120)\<close>

text \<open>
  \<^verbatim>\<open>DataFrame.groupby(key)\<close> with its defaults: one group per present key value, the
  groups in ascending key order; rows whose key cell is missing belong to no group.
\<close>

definition groupby ::
  "('r \<Rightarrow> 'k::linorder option) \<Rightarrow> 'r list \<Rightarrow> ('k \<times> 'r list) list" where
  "groupby key fv =
     map (\<lambda>k. (k, filter (\<lambda>r. key r = Some k) fv)) (sort (unique (dropna (map key fv))))"

text \<open>\<^verbatim>\<open>Series.count()\<close>: the number of present cells.\<close>

definition count_notna :: "'a option list \<Rightarrow> nat" where
  "count_notna cs = length (dropna cs)"

text \<open>
  \<^verbatim>\<open>sort_values(by="Number of deaths", ascending=False)\<close> runs with the default
  \<^verbatim>\<open>kind="quicksort"\<close>, which pandas documents as not stable. The model therefore fixes
  what every sort kind delivers and nothing more: \<open>ys\<close> is a result of sorting \<open>xs\<close> when
  it is a rearrangement of \<open>xs\<close> with non-increasing sums.
\<close>

definition sort_values_desc :: "('k \<times> int) list \<Rightarrow> ('k \<times> int) list \<Rightarrow> bool" where
  "sort_values_desc xs ys \<longleftrightarrow>
     mset ys = mset xs \<and> sorted_wrt (\<lambda>a b. snd b \<le> snd a) ys"

definition deaths_by_state :: "'i dataframe \<Rightarrow> (string \<times> int) list" where
  "deaths_by_state fv =
     map (\<lambda>(k, g). (k, sum_list (map Number_of_deaths g))) (groupby States fv)"

definition fatalities_by_state :: "'i dataframe \<Rightarrow> (string \<times> int) list \<Rightarrow> bool" where
  "fatalities_by_state fv ys \<longleftrightarrow> sort_values_desc (deaths_by_state fv) ys"

definition incidents_by_type :: "'i dataframe \<Rightarrow> (string \<times> nat) list" where
  "incidents_by_type fv =
     map (\<lambda>(k, g). (k, count_notna (map Identifier g))) (groupby Incident_Type fv)"

text \<open>
  \<^verbatim>\<open>Series.reindex(labels)\<close>: one entry per label, in the order of the labels; a label
  that is not in the index gets a missing value.
\<close>

definition reindex :: "'k option list \<Rightarrow> ('k \<times> 'v) list \<Rightarrow> ('k option \<times> 'v option) list" where
  "reindex labels s =
     map (\<lambda>l. (l, case l of None \<Rightarrow> None | Some k \<Rightarrow> map_of s k)) labels"

definition monthly_trend ::
  "'i dataframe \<Rightarrow> 'i dataframe \<Rightarrow> (string option \<times> nat option) list" where
  "monthly_trend df fv =
     reindex (month_order df)
       (map (\<lambda>(k, g). (k, count_notna (map Identifier g))) (groupby Month_Name fv))"

section \<open>Example datasets\<close>

text \<open>The three-record scenario. It does not give the identifiers; they are parameters.\<close>

definition scenario :: "'i option \<Rightarrow> 'i option \<Rightarrow> 'i option \<Rightarrow> 'i dataframe" where
  "scenario i1 i2 i3 =
    [\<lparr>States = Some ''StateA'', Year = Some 2022, Month_Name = Some ''January'',
      Incident_Type = Some ''Flood'', Identifier = i1, Number_of_deaths = 5,
      Duration_days = Some 2\<rparr>,
     \<lparr>States = Some ''StateA'', Year = Some 2023, Month_Name = Some ''February'',
      Incident_Type = Some ''Fire'', Identifier = i2, Number_of_deaths = 0,
      Duration_days = Some 1\<rparr>,
     \<lparr>States = Some ''StateB'', Year = Some 2022, Month_Name = Some ''January'',
      Incident_Type = Some ''Flood'', Identifier = i3, Number_of_deaths = 10,
      Duration_days = Some 3\<rparr>]"

text \<open>A dataset with gaps: one row without a state, one without a month, one without a type.\<close>

definition incomplete :: "nat dataframe" where
  "incomplete =
    [\<lparr>States = None, Year = Some 2022, Month_Name = Some ''January'',
      Incident_Type = Some ''Flood'', Identifier = Some 1, Number_of_deaths = 5,
      Duration_days = Some 2\<rparr>,
     \<lparr>States = Some ''StateA'', Year = Some 2022, Month_Name = None,
      Incident_Type = Some ''Fire'', Identifier = Some 2, Number_of_deaths = 1,
      Duration_days = Some 1\<rparr>,
     \<lparr>States = Some ''StateB'', Year = Some 2023, Month_Name = Some ''February'',
      Incident_Type = None, Identifier = Some 3, Number_of_deaths = 2,
      Duration_days = Some 4\<rparr>]"

text \<open>Two states with the same number of deaths, StateB recorded first.\<close>

definition tied :: "nat dataframe" where
  "tied =
    [\<lparr>States = Some ''StateB'', Year = Some 2022, Month_Name = Some ''January'',
      Incident_Type = Some ''Flood'', Identifier = Some 1, Number_of_deaths = 5,
      Duration_days = Some 2\<rparr>,
     \<lparr>States = Some ''StateA'', Year = Some 2022, Month_Name = Some ''January'',
      Incident_Type = Some ''Fire'', Identifier = Some 2, Number_of_deaths = 5,
      Duration_days = Some 1\<rparr>]"

text \<open>
  Years with three, four and five digits, and months out of calendar order with a missing
  cell between them.
\<close>

definition unordered :: "nat dataframe" where
  "unordered =
    [\<lparr>States = Some ''StateA'', Year = Some 10000, Month_Name = Some ''March'',
      Incident_Type = Some ''Flood'', Identifier = Some 1, Number_of_deaths = 5,
      Duration_days = Some 2\<rparr>,
     \<lparr>States = Some ''StateA'', Year = Some 999, Month_Name = None,
      Incident_Type = Some ''Fire'', Identifier = Some 2, Number_of_deaths = 0,
      Duration_days = Some 1\<rparr>,
     \<lparr>States = Some ''StateB'', Year = Some 2022, Month_Name = Some ''January'',
      Incident_Type = Some ''Flood'', Identifier = Some 3, Number_of_deaths = 10,
      Duration_days = Some 3\<rparr>]"

section \<open>Order of first appearance\<close>

text \<open>
  The position at which a value is first met in a list (the length of the list when it is
  never met), and the reading of "descending by sum, ties in encounter order" for the
  ranking of states: an entry comes before another when its sum is larger, or when the sums
  are equal and its state is met first in the view.
\<close>

fun first_index :: "'a list \<Rightarrow> 'a \<Rightarrow> nat" where
  "first_index [] x = 0"
| "first_index (y # ys) x = (if x = y then 0 else Suc (first_index ys x))"

definition ranked_ties_by_encounter :: "'i dataframe \<Rightarrow> (string \<times> int) list \<Rightarrow> bool" where
  "ranked_ties_by_encounter fv ys \<longleftrightarrow>
     sorted_wrt (\<lambda>a b. snd b < snd a \<or>
        snd b = snd a \<and>
        first_index (map States fv) (Some (fst a)) < first_index (map States fv) (Some (fst b))) ys"

section \<open>Readings of the order of the option lists\<close>

text \<open>
  The decimal text of an integer (\<^verbatim>\<open>str(n)\<close>), under which a lexicographic order of
  years is read, and the twelve month names in calendar order.
\<close>

definition str_int :: "int \<Rightarrow> string" where
  "str_int n = (if n < 0 then ''-'' else []) @ str_nat (nat \<bar>n\<bar>)"

definition calendar :: "string list" where
  "calendar =
     [''January'', ''February'', ''March'', ''April'', ''May'', ''June'', ''July'',
      ''August'', ''September'', ''October'', ''November'', ''December'']"

section \<open>Properties of the filters\<close>

lemma subseq_filter_state: "subseq (filter_state v df) df"
  by (simp add: filter_state_def)

lemma subseq_filter_year: "subseq (filter_year v df) df"
  by (simp add: filter_year_def)

lemma subseq_filter_month: "subseq (filter_month v df) df"
  by (simp add: filter_month_def)

lemma subseq_filter_incident: "subseq (filter_incident v df) df"
  by (simp add: filter_incident_def)

lemma filtered_df_All:
  "filtered_df df (PStr ''All'') (PStr ''All'') (PStr ''All'') (PStr ''All'') = df"
  by (simp add: filtered_df_def filter_state_def filter_year_def filter_month_def
      filter_incident_def)

lemma filtered_df_filter: "filtered_df df s y m t = filter (satisfies s y m t) df"
proof -
  have 1: "filter_state s df = filter (\<lambda>r. s = PStr ''All'' \<or> eq_str (States r) s) df"
    for df :: "'a dataframe"
    by (simp add: filter_state_def)
  have 2: "filter_year y df = filter (\<lambda>r. y = PStr ''All'' \<or> eq_int (Year r) y) df"
    for df :: "'a dataframe"
    by (simp add: filter_year_def)
  have 3: "filter_month m df = filter (\<lambda>r. m = PStr ''All'' \<or> eq_str (Month_Name r) m) df"
    for df :: "'a dataframe"
    by (simp add: filter_month_def)
  have 4: "filter_incident t df =
      filter (\<lambda>r. t = PStr ''All'' \<or> eq_str (Incident_Type r) t) df"
    for df :: "'a dataframe"
    by (simp add: filter_incident_def)
  show ?thesis
    unfolding filtered_df_def 1 2 3 4 filter_filter satisfies_def
    by (rule filter_cong) auto
qed

text \<open>
  C1. Whatever the four selections are, the filtered view is a subsequence of the dataset
  (rows of the dataset only, in their original relative order); with all four selections
  \<^verbatim>\<open>"All"\<close> it is the dataset itself.
\<close>

theorem filtered_df_subseq_and_all:
  "subseq (filtered_df df s y m t) df \<and>
   filtered_df df (PStr ''All'') (PStr ''All'') (PStr ''All'') (PStr ''All'') = df"
proof
  have "subseq (filter_year y (filter_state s df)) df"
    using subseq_filter_year subseq_filter_state by (rule subseq_order.trans)
  with subseq_filter_month have "subseq (filter_month m (filter_year y (filter_state s df))) df"
    by (rule subseq_order.trans)
  with subseq_filter_incident show "subseq (filtered_df df s y m t) df"
    unfolding filtered_df_def by (rule subseq_order.trans)
next
  show "filtered_df df (PStr ''All'') (PStr ''All'') (PStr ''All'') (PStr ''All'') = df"
    by (rule filtered_df_All)
qed

theorem filtered_df_subseq_and_all_witness:
  "subseq (filtered_df (scenario (Some (1::nat)) (Some 2) (Some 3))
       (PStr ''StateA'') (PInt 2023) (PStr ''All'') (PStr ''All''))
     (scenario (Some 1) (Some 2) (Some 3)) \<and>
   filtered_df (scenario (Some (1::nat)) (Some 2) (Some 3))
     (PStr ''All'') (PStr ''All'') (PStr ''All'') (PStr ''All'') =
   scenario (Some 1) (Some 2) (Some 3)"
  using filtered_df_subseq_and_all
    [of "scenario (Some (1::nat)) (Some 2) (Some 3)" "PStr ''StateA''" "PInt 2023"
      "PStr ''All''" "PStr ''All''"]
  by simp

text \<open>
  C2. The filters compose as a logical AND. Split a selection \<open>(s, y, m, t)\<close> into two
  selections, each dimension's constraint going to one of them and the other holding
  \<^verbatim>\<open>"All"\<close> there: filtering by the first and then filtering the result by the second
  gives the view of the one-pass filter, in whichever way the dimensions are distributed.
  The one-pass view is the list of the rows that satisfy the conjunction.
\<close>

theorem filters_compose_conjunctively:
  assumes "s1 = PStr ''All'' \<and> s2 = s \<or> s1 = s \<and> s2 = PStr ''All''"
    and "y1 = PStr ''All'' \<and> y2 = y \<or> y1 = y \<and> y2 = PStr ''All''"
    and "m1 = PStr ''All'' \<and> m2 = m \<or> m1 = m \<and> m2 = PStr ''All''"
    and "t1 = PStr ''All'' \<and> t2 = t \<or> t1 = t \<and> t2 = PStr ''All''"
  shows "filtered_df (filtered_df df s1 y1 m1 t1) s2 y2 m2 t2 = filtered_df df s y m t \<and>
         filtered_df df s y m t = filter (satisfies s y m t) df"
proof
  have "filtered_df (filtered_df df s1 y1 m1 t1) s2 y2 m2 t2 =
        filter (\<lambda>r. satisfies s1 y1 m1 t1 r \<and> satisfies s2 y2 m2 t2 r) df"
    by (simp add: filtered_df_filter conj_commute)
  also have "\<dots> = filter (satisfies s y m t) df"
    using assms by (intro filter_cong refl) (auto simp: satisfies_def)
  finally show "filtered_df (filtered_df df s1 y1 m1 t1) s2 y2 m2 t2 = filtered_df df s y m t"
    by (simp add: filtered_df_filter)
  show "filtered_df df s y m t = filter (satisfies s y m t) df"
    by (rule filtered_df_filter)
qed

theorem filters_compose_conjunctively_witness:
  "filtered_df (filtered_df (scenario (Some (1::nat)) (Some 2) (Some 3))
       (PStr ''StateA'') (PStr ''All'') (PStr ''All'') (PStr ''All''))
     (PStr ''All'') (PInt 2023) (PStr ''All'') (PStr ''All'') =
   filtered_df (scenario (Some 1) (Some 2) (Some 3))
     (PStr ''StateA'') (PInt 2023) (PStr ''All'') (PStr ''All'') \<and>
   filtered_df (scenario (Some (1::nat)) (Some 2) (Some 3))
     (PStr ''StateA'') (PInt 2023) (PStr ''All'') (PStr ''All'') =
   [\<lparr>States = Some ''StateA'', Year = Some 2023, Month_Name = Some ''February'',
      Incident_Type = Some ''Fire'', Identifier = Some 2, Number_of_deaths = 0,
      Duration_days = Some 1\<rparr>]"
  using filters_compose_conjunctively [of "PStr ''StateA''" "PStr ''All''" "PStr ''StateA''"
      "PStr ''All''" "PInt 2023" "PInt 2023" "PStr ''All''" "PStr ''All''" "PStr ''All''"
      "PStr ''All''" "PStr ''All''" "PStr ''All''" "scenario (Some (1::nat)) (Some 2) (Some 3)"]
  by (simp add: scenario_def satisfies_def eq_str_def eq_int_def)

section \<open>Properties of the pandas primitives\<close>

lemma set_dropna: "set (dropna cs) = {v. Some v \<in> set cs}"
  by (induction cs rule: dropna.induct) auto

lemma unique_filter: "unique (filter P xs) = filter P (unique xs)"
proof (induction xs rule: unique.induct)
  case 1
  then show ?case by simp
next
  case (2 x xs)
  have comm: "filter (\<lambda>y. y \<noteq> x) (filter P xs) = filter P (filter (\<lambda>y. y \<noteq> x) xs)"
    by (simp add: conj_commute)
  show ?case
  proof (cases "P x")
    case True
    then show ?thesis using 2 comm by simp
  next
    case False
    then have "filter P xs = filter P (filter (\<lambda>y. y \<noteq> x) xs)"
      by (auto intro: filter_cong)
    with False 2 show ?thesis by simp
  qed
qed

lemma unique_Cons: "unique (x # xs) = x # filter (\<lambda>y. y \<noteq> x) (unique xs)"
  by (simp add: unique_filter)

lemma set_unique: "set (unique xs) = set xs"
  by (induction xs) (auto simp: unique_Cons simp del: unique.simps(2))

lemma distinct_unique: "distinct (unique xs)"
  by (induction xs) (auto simp: unique_Cons simp del: unique.simps(2))

lemma sum_list_delta:
  "distinct ks \<Longrightarrow>
   sum_list (map (\<lambda>k. if c = Some k then a else 0) ks) =
     (if c \<in> Some ` set ks then (a::'a::comm_monoid_add) else 0)"
  by (induction ks) auto

text \<open>
  Summing a row weight group by group, over distinct keys, is summing it over the rows
  whose key is one of them.
\<close>

lemma sum_groups:
  fixes w :: "'r \<Rightarrow> 'a::comm_monoid_add"
  assumes "distinct ks"
  shows "sum_list (map (\<lambda>k. sum_list (map w (filter (\<lambda>r. key r = Some k) xs))) ks) =
         sum_list (map w (filter (\<lambda>r. key r \<in> Some ` set ks) xs))"
proof (induction xs)
  case Nil
  then show ?case by simp
next
  case (Cons r xs)
  have "sum_list (map (\<lambda>k. sum_list (map w (filter (\<lambda>r. key r = Some k) (r # xs)))) ks) =
        sum_list (map (\<lambda>k. (if key r = Some k then w r else 0) +
                        sum_list (map w (filter (\<lambda>r. key r = Some k) xs))) ks)"
    by (rule arg_cong [where f = sum_list]) simp
  also have "\<dots> = sum_list (map (\<lambda>k. if key r = Some k then w r else 0) ks) +
        sum_list (map (\<lambda>k. sum_list (map w (filter (\<lambda>r. key r = Some k) xs))) ks)"
    by (rule sum_list_addf)
  also have "\<dots> = (if key r \<in> Some ` set ks then w r else 0) +
        sum_list (map w (filter (\<lambda>r. key r \<in> Some ` set ks) xs))"
    using assms Cons.IH by (simp only: sum_list_delta)
  also have "\<dots> = sum_list (map w (filter (\<lambda>r. key r \<in> Some ` set ks) (r # xs)))"
    by simp
  finally show ?case .
qed

lemma groupby_total:
  fixes w :: "'r \<Rightarrow> 'a::comm_monoid_add"
  shows "sum_list (map (\<lambda>(k, g). sum_list (map w g)) (groupby key fv)) =
         sum_list (map w (filter (\<lambda>r. key r \<noteq> None) fv))"
proof -
  let ?ks = "sort (unique (dropna (map key fv)))"
  have d: "distinct ?ks" by (simp add: distinct_unique)
  have "sum_list (map (\<lambda>(k, g). sum_list (map w g)) (groupby key fv)) =
        sum_list (map (\<lambda>k. sum_list (map w (filter (\<lambda>r. key r = Some k) fv))) ?ks)"
    by (simp add: groupby_def comp_def)
  also have "\<dots> = sum_list (map w (filter (\<lambda>r. key r \<in> Some ` set ?ks) fv))"
    using d by (rule sum_groups)
  also have "filter (\<lambda>r. key r \<in> Some ` set ?ks) fv = filter (\<lambda>r. key r \<noteq> None) fv"
    by (rule filter_cong) (force simp: set_unique set_dropna image_iff)+
  finally show ?thesis .
qed

section \<open>Group totals against the scalar metrics\<close>

text \<open>
  C3, as the code has it. The sum of the per-state death sums of the ranking is the
  total-deaths metric of the rows of the filtered view whose state is present:
  \<^verbatim>\<open>groupby\<close> leaves rows without a state out of every group. The two numbers agree
  when no row of the view lacks its state.
\<close>

theorem state_sums_total:
  assumes "fatalities_by_state fv ys"
  shows "sum_list (map snd ys) = total_deaths (filter (\<lambda>r. States r \<noteq> None) fv) \<and>
         ((\<forall>r \<in> set fv. States r \<noteq> None) \<longrightarrow> sum_list (map snd ys) = total_deaths fv)"
proof -
  from assms have "mset ys = mset (deaths_by_state fv)"
    by (simp add: fatalities_by_state_def sort_values_desc_def)
  then have "sum_list (map snd ys) = sum_list (map snd (deaths_by_state fv))"
    by (metis mset_map sum_mset_sum_list)
  also have "\<dots> =
      sum_list (map (\<lambda>(k, g). sum_list (map Number_of_deaths g)) (groupby States fv))"
    by (simp add: deaths_by_state_def comp_def case_prod_unfold)
  also have "\<dots> = total_deaths (filter (\<lambda>r. States r \<noteq> None) fv)"
    by (simp only: groupby_total total_deaths_def)
  finally have "sum_list (map snd ys) = total_deaths (filter (\<lambda>r. States r \<noteq> None) fv)" .
  moreover have "(\<forall>r \<in> set fv. States r \<noteq> None) \<longrightarrow> filter (\<lambda>r. States r \<noteq> None) fv = fv"
    by simp
  ultimately show ?thesis by auto
qed

theorem state_sums_total_witness:
  "fatalities_by_state (scenario (Some (1::nat)) (Some 2) (Some 3))
     [(''StateB'', 10), (''StateA'', 5)] \<and>
   sum_list (map snd [(''StateB'', 10::int), (''StateA'', 5)]) =
     total_deaths (scenario (Some (1::nat)) (Some 2) (Some 3))"
proof -
  have a: "fatalities_by_state (scenario (Some (1::nat)) (Some 2) (Some 3))
     [(''StateB'', 10), (''StateA'', 5)]"
    by (simp add: fatalities_by_state_def sort_values_desc_def deaths_by_state_def
        groupby_def scenario_def)
  have b: "\<forall>r \<in> set (scenario (Some (1::nat)) (Some 2) (Some 3)). States r \<noteq> None"
    by (simp add: scenario_def)
  from state_sums_total [OF a] a b show ?thesis by blast
qed

text \<open>
  The claim as the specification words it (the per-state sums add up to the total-deaths
  metric of the same view) fails on the dataset with gaps, all selections
  \<^verbatim>\<open>"All"\<close>: the ranking holds StateB with 2 and StateA with 1, the metric is 8.
\<close>

theorem state_sums_total_counterexample:
  "fatalities_by_state
     (filtered_df incomplete (PStr ''All'') (PStr ''All'') (PStr ''All'') (PStr ''All''))
     [(''StateB'', 2), (''StateA'', 1)] \<and>
   sum_list (map snd [(''StateB'', 2::int), (''StateA'', 1)]) = 3 \<and>
   total_deaths
     (filtered_df incomplete (PStr ''All'') (PStr ''All'') (PStr ''All'') (PStr ''All'')) = 8"
  by (simp add: filtered_df_All fatalities_by_state_def sort_values_desc_def
      deaths_by_state_def groupby_def incomplete_def total_deaths_def)

text \<open>
  C4, as the code has it. The per-type counts add up to the number of rows of the filtered
  view that have both an incident type and an identifier: \<^verbatim>\<open>groupby\<close> leaves rows
  without a type out, and \<^verbatim>\<open>count()\<close> counts present identifiers. The sum is the
  record count when no row of the view lacks either.
\<close>

theorem type_counts_total:
  "sum_list (map snd (incidents_by_type fv)) =
     total_incidents (filter (\<lambda>r. Incident_Type r \<noteq> None \<and> Identifier r \<noteq> None) fv) \<and>
   ((\<forall>r \<in> set fv. Incident_Type r \<noteq> None \<and> Identifier r \<noteq> None) \<longrightarrow>
      sum_list (map snd (incidents_by_type fv)) = total_incidents fv)"
proof -
  let ?w = "\<lambda>r. if Identifier r = None then 0 else (1::nat)"
  have cnt: "count_notna (map Identifier g) = sum_list (map ?w g)" for g :: "'a dataframe"
    by (induction g) (auto simp: count_notna_def)
  have "sum_list (map snd (incidents_by_type fv)) =
        sum_list (map (\<lambda>(k, g). sum_list (map ?w g)) (groupby Incident_Type fv))"
    by (simp add: incidents_by_type_def comp_def case_prod_unfold cnt)
  also have "\<dots> = sum_list (map ?w (filter (\<lambda>r. Incident_Type r \<noteq> None) fv))"
    by (rule groupby_total)
  also have "\<dots> =
      length (filter (\<lambda>r. Incident_Type r \<noteq> None \<and> Identifier r \<noteq> None) fv)"
    by (induction fv) auto
  finally have "sum_list (map snd (incidents_by_type fv)) =
     total_incidents (filter (\<lambda>r. Incident_Type r \<noteq> None \<and> Identifier r \<noteq> None) fv)"
    by (simp add: total_incidents_def)
  moreover have "(\<forall>r \<in> set fv. Incident_Type r \<noteq> None \<and> Identifier r \<noteq> None) \<longrightarrow>
     filter (\<lambda>r. Incident_Type r \<noteq> None \<and> Identifier r \<noteq> None) fv = fv"
    by simp
  ultimately show ?thesis by auto
qed

theorem type_counts_total_witness:
  "sum_list (map snd (incidents_by_type (scenario (Some (1::nat)) (Some 2) (Some 3)))) = 3 \<and>
   total_incidents (scenario (Some (1::nat)) (Some 2) (Some 3)) = 3"
proof -
  have b: "\<forall>r \<in> set (scenario (Some (1::nat)) (Some 2) (Some 3)).
      Incident_Type r \<noteq> None \<and> Identifier r \<noteq> None"
    by (simp add: scenario_def)
  have c: "total_incidents (scenario (Some (1::nat)) (Some 2) (Some 3)) = 3"
    by (simp add: total_incidents_def scenario_def)
  from type_counts_total [of "scenario (Some (1::nat)) (Some 2) (Some 3)"] b c
  show ?thesis by simp
qed

text \<open>
  The claim as the specification words it (the per-type counts add up to the number of
  rows of the same view) fails on the dataset with gaps, all selections \<^verbatim>\<open>"All"\<close>:
  the counts are Fire 1 and Flood 1, the view has 3 rows.
\<close>

theorem type_counts_total_counterexample:
  "incidents_by_type
     (filtered_df incomplete (PStr ''All'') (PStr ''All'') (PStr ''All'') (PStr ''All'')) =
     [(''Fire'', 1), (''Flood'', 1)] \<and>
   total_incidents
     (filtered_df incomplete (PStr ''All'') (PStr ''All'') (PStr ''All'') (PStr ''All'')) = 3"
  by (simp add: filtered_df_All incidents_by_type_def groupby_def incomplete_def
      total_incidents_def count_notna_def)

section \<open>The empty view\<close>

text \<open>
  C5. When no row passes the filters, the record count is 0, the death sum is 0, the mean
  duration is NaN, and the three metric texts are \<^verbatim>\<open>0\<close>, \<^verbatim>\<open>0\<close> and \<^verbatim>\<open>nan\<close>: the
  metrics and the format specifications are total, there is no failing branch to take.
\<close>

theorem empty_view_metrics:
  assumes "filtered_df df s y m t = []"
  shows "total_incidents (filtered_df df s y m t) = 0 \<and>
         total_deaths (filtered_df df s y m t) = 0 \<and>
         avg_duration (filtered_df df s y m t) = None \<and>
         metric_texts (filtered_df df s y m t) = (''0'', ''0'', ''nan'')"
  using assms
  by (simp add: metric_texts_def total_incidents_def total_deaths_def avg_duration_def
      mean_def fmt_comma_def fmt_1f_def str_nat.simps digit_char_def)

theorem empty_view_metrics_witness:
  "filtered_df (scenario (Some (1::nat)) (Some 2) (Some 3))
     (PStr ''StateC'') (PStr ''All'') (PStr ''All'') (PStr ''All'') = [] \<and>
   metric_texts (filtered_df (scenario (Some (1::nat)) (Some 2) (Some 3))
     (PStr ''StateC'') (PStr ''All'') (PStr ''All'') (PStr ''All'')) = (''0'', ''0'', ''nan'')"
proof -
  have e: "filtered_df (scenario (Some (1::nat)) (Some 2) (Some 3))
     (PStr ''StateC'') (PStr ''All'') (PStr ''All'') (PStr ''All'') = []"
    by (simp add: filtered_df_def filter_state_def filter_year_def filter_month_def
        filter_incident_def eq_str_def scenario_def)
  from empty_view_metrics [OF e] e show ?thesis by simp
qed

section \<open>The ranking of states\<close>

lemma deaths_by_state_keys:
  "deaths_by_state fv =
     map (\<lambda>k. (k, total_deaths (filter (\<lambda>r. States r = Some k) fv)))
       (sort (unique (dropna (map States fv))))"
  by (simp add: deaths_by_state_def groupby_def total_deaths_def comp_def)

text \<open>
  Sorting always has a result: the one a stable sort kind gives (reverse, sort ascending,
  reverse, as pandas does for \<^verbatim>\<open>ascending=False\<close>) is one of them.
\<close>

lemma sort_values_desc_total: "sort_values_desc xs (rev (sort_key snd (rev xs)))"
proof -
  have "sorted (map snd (sort_key snd (rev xs)))"
    by (rule sorted_sort_key)
  then have "sorted_wrt (\<lambda>a b. snd b \<le> snd a) (rev (sort_key snd (rev xs)))"
    by (simp add: sorted_map sorted_wrt_rev)
  then show ?thesis
    by (simp add: sort_values_desc_def)
qed

text \<open>
  C6, as the code has it. The ranking exists and is in descending order of the summed
  deaths, with exactly one entry for each state present in the filtered view, holding the
  sum of the deaths of its rows. Nothing more is fixed: there is no secondary key, the
  sort kind is not a stable one, and the groups reach the sort in ascending state order,
  so that states with equal sums need not appear in the order of their first rows.
\<close>

theorem fatalities_by_state_ranking:
  "(\<exists>ys. fatalities_by_state fv ys) \<and>
   (\<forall>ys. fatalities_by_state fv ys \<longrightarrow>
      sorted_wrt (\<lambda>a b. snd b \<le> snd a) ys \<and> distinct (map fst ys) \<and>
      set ys = (\<lambda>k. (k, total_deaths (filter (\<lambda>r. States r = Some k) fv))) `
                 {k. Some k \<in> States ` set fv})"
proof (intro conjI allI impI)
  show "\<exists>ys. fatalities_by_state fv ys"
    unfolding fatalities_by_state_def using sort_values_desc_total by blast
next
  fix ys
  assume a: "fatalities_by_state fv ys"
  then have m: "mset ys = mset (deaths_by_state fv)"
    by (simp add: fatalities_by_state_def sort_values_desc_def)
  from a show "sorted_wrt (\<lambda>a b. snd b \<le> snd a) ys"
    by (simp add: fatalities_by_state_def sort_values_desc_def)
  have "mset (map fst ys) = mset (map fst (deaths_by_state fv))"
    using m by (metis mset_map)
  moreover have "distinct (map fst (deaths_by_state fv))"
    by (simp add: deaths_by_state_keys comp_def distinct_unique)
  ultimately show "distinct (map fst ys)"
    by (metis mset_eq_imp_distinct_iff)
  have "set ys = set (deaths_by_state fv)"
    using m by (rule mset_eq_setD)
  then show "set ys = (\<lambda>k. (k, total_deaths (filter (\<lambda>r. States r = Some k) fv))) `
                 {k. Some k \<in> States ` set fv}"
    by (simp add: deaths_by_state_keys set_unique set_dropna)
qed

theorem fatalities_by_state_ranking_witness:
  "fatalities_by_state tied [(''StateA'', 5), (''StateB'', 5)] \<and>
   sorted_wrt (\<lambda>a b. snd b \<le> snd a) [(''StateA'', 5::int), (''StateB'', 5)] \<and>
   distinct (map fst [(''StateA'', 5::int), (''StateB'', 5)])"
proof -
  have a: "fatalities_by_state tied [(''StateA'', 5), (''StateB'', 5)]"
    by (simp add: fatalities_by_state_def sort_values_desc_def deaths_by_state_def
        groupby_def tied_def)
  from fatalities_by_state_ranking [of tied] a show ?thesis by blast
qed

text \<open>
  The claim as the specification words it (descending, ties in encounter order) fails on
  the dataset with two tied states, all selections \<^verbatim>\<open>"All"\<close>: StateB is recorded
  first, the groups are formed in the order StateA, StateB, and the ranking that leaves
  them so is a result of the sort.
\<close>

theorem fatalities_by_state_ties_counterexample:
  "fatalities_by_state
     (filtered_df tied (PStr ''All'') (PStr ''All'') (PStr ''All'') (PStr ''All''))
     [(''StateA'', 5), (''StateB'', 5)] \<and>
   \<not> ranked_ties_by_encounter
     (filtered_df tied (PStr ''All'') (PStr ''All'') (PStr ''All'') (PStr ''All''))
     [(''StateA'', 5), (''StateB'', 5)]"
  by (simp add: filtered_df_All fatalities_by_state_def sort_values_desc_def
      deaths_by_state_def groupby_def tied_def ranked_ties_by_encounter_def)

section \<open>The monthly trend\<close>

lemma first_seen_unique:
  "sorted_wrt (\<lambda>a b. first_index xs a < first_index xs b) (unique xs)"
proof (induction xs)
  case Nil
  then show ?case by simp
next
  case (Cons x xs)
  let ?l = "filter (\<lambda>y. y \<noteq> x) (unique xs)"
  have "sorted_wrt (\<lambda>a b. first_index xs a < first_index xs b) ?l"
    using Cons.IH by (rule sorted_wrt_filter)
  then have "sorted_wrt (\<lambda>a b. first_index (x # xs) a < first_index (x # xs) b) ?l"
    by (rule sorted_wrt_mono_rel [rotated]) auto
  moreover have "\<forall>b \<in> set ?l. first_index (x # xs) x < first_index (x # xs) b"
    by auto
  ultimately show ?case
    by (simp only: unique_Cons sorted_wrt.simps)
qed

lemma monthly_trend_entries:
  "monthly_trend df fv =
     map (\<lambda>l. (l, case l of None \<Rightarrow> None
                 | Some k \<Rightarrow>
                     if Some k \<in> Month_Name ` set fv
                     then Some (count_notna (map Identifier
                            (filter (\<lambda>r. Month_Name r = Some k) fv)))
                     else None))
       (month_order df)"
proof -
  let ?ks = "sort (unique (dropna (map Month_Name fv)))"
  let ?c = "\<lambda>k. count_notna (map Identifier (filter (\<lambda>r. Month_Name r = Some k) fv))"
  have 1: "map (\<lambda>(k, g). (k, count_notna (map Identifier g))) (groupby Month_Name fv) =
        map (\<lambda>k. (k, ?c k)) ?ks"
    by (simp add: groupby_def comp_def)
  have 2: "map_of (map (\<lambda>k. (k, ?c k)) ?ks) k =
        (if Some k \<in> Month_Name ` set fv then Some (?c k) else None)" for k
    by (simp add: map_of_map_restrict restrict_map_def set_unique set_dropna)
  show ?thesis
    unfolding monthly_trend_def reindex_def 1
    by (intro map_cong refl) (simp add: 2 split: option.split)
qed

text \<open>
  C7, as the code has it. The monthly counts are reindexed onto \<open>month_order\<close>, the
  distinct \<^verbatim>\<open>Month_Name\<close> cells of the full dataset in the order of their first
  appearance: the projection has exactly one entry per such label, in that order. A label
  of the full dataset that no row of the filtered view carries keeps its entry, and the
  count of that entry is missing (NaN): it is neither 0 nor dropped. A month that the view
  does carry has the number of its rows with a present identifier.
\<close>

theorem monthly_trend_reindexed:
  "map fst (monthly_trend df (filtered_df df s y m t)) = month_order df \<and>
   distinct (month_order df) \<and>
   set (month_order df) = Month_Name ` set df \<and>
   sorted_wrt (\<lambda>a b. first_index (map Month_Name df) a < first_index (map Month_Name df) b)
     (month_order df) \<and>
   (\<forall>l \<in> set (month_order df). l \<notin> Month_Name ` set (filtered_df df s y m t) \<longrightarrow>
      (l, None) \<in> set (monthly_trend df (filtered_df df s y m t))) \<and>
   (\<forall>k. Some k \<in> Month_Name ` set (filtered_df df s y m t) \<longrightarrow>
      (Some k, Some (count_notna (map Identifier
          (filter (\<lambda>r. Month_Name r = Some k) (filtered_df df s y m t))))) \<in>
        set (monthly_trend df (filtered_df df s y m t)))"
proof (intro conjI ballI allI impI)
  let ?fv = "filtered_df df s y m t"
  show "map fst (monthly_trend df ?fv) = month_order df"
    by (simp add: monthly_trend_def reindex_def comp_def)
  show "distinct (month_order df)"
    by (simp add: month_order_def distinct_unique)
  show "set (month_order df) = Month_Name ` set df"
    by (simp add: month_order_def set_unique)
  show "sorted_wrt (\<lambda>a b. first_index (map Month_Name df) a < first_index (map Month_Name df) b)
     (month_order df)"
    unfolding month_order_def by (rule first_seen_unique)
next
  fix l
  assume "l \<in> set (month_order df)" and "l \<notin> Month_Name ` set (filtered_df df s y m t)"
  then show "(l, None) \<in> set (monthly_trend df (filtered_df df s y m t))"
    unfolding monthly_trend_entries set_map
    by (intro image_eqI [where x = l]) (auto split: option.split)
next
  fix k
  assume a: "Some k \<in> Month_Name ` set (filtered_df df s y m t)"
  have "set (filtered_df df s y m t) \<subseteq> set df"
    by (simp add: filtered_df_filter)
  with a have "Some k \<in> set (month_order df)"
    by (auto simp: month_order_def set_unique)
  with a show "(Some k, Some (count_notna (map Identifier
          (filter (\<lambda>r. Month_Name r = Some k) (filtered_df df s y m t))))) \<in>
        set (monthly_trend df (filtered_df df s y m t))"
    unfolding monthly_trend_entries set_map
    by (intro image_eqI [where x = "Some k"]) simp_all
qed

theorem monthly_trend_reindexed_witness:
  "Some ''February'' \<in> set (month_order (scenario (Some (1::nat)) (Some 2) (Some 3))) \<and>
   Some ''January'' \<in> Month_Name ` set (filtered_df (scenario (Some (1::nat)) (Some 2) (Some 3))
       (PStr ''All'') (PInt 2022) (PStr ''All'') (PStr ''All'')) \<and>
   (Some ''February'', None) \<in> set (monthly_trend (scenario (Some (1::nat)) (Some 2) (Some 3))
     (filtered_df (scenario (Some (1::nat)) (Some 2) (Some 3))
       (PStr ''All'') (PInt 2022) (PStr ''All'') (PStr ''All''))) \<and>
   (Some ''January'', Some 2) \<in> set (monthly_trend (scenario (Some (1::nat)) (Some 2) (Some 3))
     (filtered_df (scenario (Some (1::nat)) (Some 2) (Some 3))
       (PStr ''All'') (PInt 2022) (PStr ''All'') (PStr ''All'')))"
proof -
  let ?D = "scenario (Some (1::nat)) (Some 2) (Some 3)"
  let ?fv = "filtered_df ?D (PStr ''All'') (PInt 2022) (PStr ''All'') (PStr ''All'')"
  have v: "?fv = [?D ! 0, ?D ! 2]"
    by (simp add: filtered_df_def filter_state_def filter_year_def filter_month_def
        filter_incident_def eq_int_def scenario_def)
  have h1: "Some ''February'' \<in> set (month_order ?D)"
    by (simp add: month_order_def scenario_def)
  have h2: "Some ''February'' \<notin> Month_Name ` set ?fv"
    unfolding v by (simp add: scenario_def)
  have h3: "Some ''January'' \<in> Month_Name ` set ?fv"
    unfolding v by (simp add: scenario_def)
  have c: "count_notna (map Identifier (filter (\<lambda>r. Month_Name r = Some ''January'') ?fv)) = 2"
    unfolding v by (simp add: scenario_def count_notna_def)
  from monthly_trend_reindexed [of ?D "PStr ''All''" "PInt 2022" "PStr ''All''" "PStr ''All''"]
  have "(Some ''February'', None) \<in> set (monthly_trend ?D ?fv)"
    and "(Some ''January'', Some (count_notna (map Identifier
          (filter (\<lambda>r. Month_Name r = Some ''January'') ?fv)))) \<in> set (monthly_trend ?D ?fv)"
    using h1 h2 h3 by blast+
  with h1 h3 c show ?thesis by simp
qed

text \<open>
  The claim as the specification words it (count 0, or the month dropped) fails on the
  scenario with the month filter set to January: February belongs to the month order and
  to no row of the view, its entry is in the projection, and its count is missing.
\<close>

theorem monthly_trend_absent_month_counterexample:
  "Some ''February'' \<in> set (month_order (scenario (Some (1::nat)) (Some 2) (Some 3))) \<and>
   Some ''February'' \<notin> Month_Name ` set (filtered_df (scenario (Some (1::nat)) (Some 2) (Some 3))
       (PStr ''All'') (PStr ''All'') (PStr ''January'') (PStr ''All'')) \<and>
   monthly_trend (scenario (Some (1::nat)) (Some 2) (Some 3))
     (filtered_df (scenario (Some (1::nat)) (Some 2) (Some 3))
       (PStr ''All'') (PStr ''All'') (PStr ''January'') (PStr ''All'')) =
   [(Some ''January'', Some 2), (Some ''February'', None)] \<and>
   (Some ''February'', Some 0) \<notin> set (monthly_trend (scenario (Some (1::nat)) (Some 2) (Some 3))
     (filtered_df (scenario (Some (1::nat)) (Some 2) (Some 3))
       (PStr ''All'') (PStr ''All'') (PStr ''January'') (PStr ''All''))) \<and>
   Some ''February'' \<in> set (map fst (monthly_trend (scenario (Some (1::nat)) (Some 2) (Some 3))
     (filtered_df (scenario (Some (1::nat)) (Some 2) (Some 3))
       (PStr ''All'') (PStr ''All'') (PStr ''January'') (PStr ''All''))))"
  by (simp add: filtered_df_def filter_state_def filter_year_def filter_month_def
      filter_incident_def eq_str_def scenario_def monthly_trend_def month_order_def
      reindex_def groupby_def count_notna_def)

section \<open>The option lists\<close>

lemma group_keys_sorted:
  "sorted (sort (unique (dropna cs))) \<and> distinct (sort (unique (dropna cs))) \<and>
   set (sort (unique (dropna cs))) = {v. Some v \<in> set cs}"
  by (simp add: distinct_unique set_unique set_dropna)

text \<open>
  C8, as the code has it. Each option list starts with \<^verbatim>\<open>"All"\<close>. After it, the
  state, year and type lists hold the values present in the full dataset, each once, in
  ascending order as \<^verbatim>\<open>sorted\<close> gives it: lexicographic on the strings of states and
  types, numeric on years. The month list holds the distinct \<^verbatim>\<open>Month_Name\<close> cells of
  the full dataset, each once, in the order of their first appearance, which need not be
  the calendar order; a missing cell is one of these entries.
\<close>

theorem option_lists:
  "(\<exists>L. state_options df = PStr ''All'' # map PStr L \<and> sorted L \<and> distinct L \<and>
        set L = {v. Some v \<in> States ` set df}) \<and>
   (\<exists>L. year_options df = PStr ''All'' # map PInt L \<and> sorted L \<and> distinct L \<and>
        set L = {v. Some v \<in> Year ` set df}) \<and>
   (\<exists>L. incident_options df = PStr ''All'' # map PStr L \<and> sorted L \<and> distinct L \<and>
        set L = {v. Some v \<in> Incident_Type ` set df}) \<and>
   (\<exists>M. month_options df = PStr ''All'' # map cell_str M \<and> distinct M \<and>
        set M = Month_Name ` set df \<and>
        sorted_wrt (\<lambda>a b. first_index (map Month_Name df) a < first_index (map Month_Name df) b) M)"
proof (intro conjI)
  show "\<exists>L. state_options df = PStr ''All'' # map PStr L \<and> sorted L \<and> distinct L \<and>
        set L = {v. Some v \<in> States ` set df}"
    unfolding state_options_def using group_keys_sorted [of "map States df"]
    by (intro exI [of _ "sort (unique (dropna (map States df)))"]) simp
  show "\<exists>L. year_options df = PStr ''All'' # map PInt L \<and> sorted L \<and> distinct L \<and>
        set L = {v. Some v \<in> Year ` set df}"
    unfolding year_options_def using group_keys_sorted [of "map Year df"]
    by (intro exI [of _ "sort (unique (dropna (map Year df)))"]) simp
  show "\<exists>L. incident_options df = PStr ''All'' # map PStr L \<and> sorted L \<and> distinct L \<and>
        set L = {v. Some v \<in> Incident_Type ` set df}"
    unfolding incident_options_def using group_keys_sorted [of "map Incident_Type df"]
    by (intro exI [of _ "sort (unique (dropna (map Incident_Type df)))"]) simp
  show "\<exists>M. month_options df = PStr ''All'' # map cell_str M \<and> distinct M \<and>
        set M = Month_Name ` set df \<and>
        sorted_wrt (\<lambda>a b. first_index (map Month_Name df) a < first_index (map Month_Name df) b) M"
    unfolding month_options_def month_order_def
    by (intro exI [of _ "unique (map Month_Name df)"])
      (simp add: distinct_unique set_unique first_seen_unique)
qed

theorem option_lists_witness:
  "state_options (scenario (Some (1::nat)) (Some 2) (Some 3)) =
     [PStr ''All'', PStr ''StateA'', PStr ''StateB''] \<and>
   year_options (scenario (Some (1::nat)) (Some 2) (Some 3)) =
     [PStr ''All'', PInt 2022, PInt 2023] \<and>
   incident_options (scenario (Some (1::nat)) (Some 2) (Some 3)) =
     [PStr ''All'', PStr ''Fire'', PStr ''Flood''] \<and>
   month_options (scenario (Some (1::nat)) (Some 2) (Some 3)) =
     [PStr ''All'', PStr ''January'', PStr ''February'']"
  using option_lists [of "scenario (Some (1::nat)) (Some 2) (Some 3)"]
  by (simp add: month_options_def month_order_def state_options_def year_options_def
      incident_options_def cell_str_def scenario_def)

lemma str_nat_digit: "n < 10 \<Longrightarrow> str_nat n = [digit_char n]"
  by (simp add: str_nat.simps)

lemma str_nat_more: "10 \<le> n \<Longrightarrow> str_nat n = str_nat (n div 10) @ [digit_char (n mod 10)]"
  by (subst str_nat.simps) simp

text \<open>
  The claim as the specification words it (years sorted lexicographically, months in
  first-seen/calendar order, the lists holding the values present) fails on the dataset
  \<open>unordered\<close>: the years come out as 999, 2022, 10000, whose decimal texts are not in
  lexicographic order; the months come out as March, NaN, January, which holds a missing
  value and puts March before January.
\<close>

theorem option_lists_counterexample:
  "year_options unordered = [PStr ''All'', PInt 999, PInt 2022, PInt 10000] \<and>
   map str_int [999, 2022, 10000] = [''999'', ''2022'', ''10000''] \<and>
   \<not> sorted [''999'', ''2022'', ''10000''] \<and>
   month_options unordered = [PStr ''All'', PStr ''March'', PNaN, PStr ''January''] \<and>
   \<not> sorted_wrt (\<lambda>a b. first_index calendar a < first_index calendar b)
       [''March'', ''January'']"
proof (intro conjI)
  show "year_options unordered = [PStr ''All'', PInt 999, PInt 2022, PInt 10000]"
    by (simp add: year_options_def unordered_def)
  show "map str_int [999, 2022, 10000] = [''999'', ''2022'', ''10000'']"
    by (simp add: str_int_def str_nat_digit str_nat_more digit_char_def)
  show "\<not> sorted [''999'', ''2022'', ''10000'']"
    by simp
  show "month_options unordered = [PStr ''All'', PStr ''March'', PNaN, PStr ''January'']"
    by (simp add: month_options_def month_order_def cell_str_def unordered_def)
  show "\<not> sorted_wrt (\<lambda>a b. first_index calendar a < first_index calendar b)
       [''March'', ''January'']"
    by (simp add: calendar_def)
qed

text \<open>
  C10. A dataset with a missing \<^verbatim>\<open>Month_Name\<close> cell has NaN among its month options,
  while the state, year and type option lists never hold NaN, whatever the dataset.
\<close>

theorem month_options_keep_missing:
  "(None \<in> Month_Name ` set df \<longrightarrow> PNaN \<in> set (month_options df)) \<and>
   PNaN \<notin> set (state_options df) \<and> PNaN \<notin> set (year_options df) \<and>
   PNaN \<notin> set (incident_options df)"
proof (intro conjI impI)
  assume "None \<in> Month_Name ` set df"
  then have "cell_str None \<in> cell_str ` set (unique (map Month_Name df))"
    by (simp add: set_unique)
  then show "PNaN \<in> set (month_options df)"
    by (simp add: month_options_def month_order_def cell_str_def)
qed (auto simp: state_options_def year_options_def incident_options_def)

theorem month_options_keep_missing_witness:
  "None \<in> Month_Name ` set incomplete \<and>
   PNaN \<in> set (month_options incomplete) \<and>
   PNaN \<notin> set (state_options incomplete) \<and>
   PNaN \<notin> set (year_options incomplete) \<and>
   PNaN \<notin> set (incident_options incomplete)"
proof -
  have h: "None \<in> Month_Name ` set incomplete"
    by (simp add: incomplete_def)
  from month_options_keep_missing [of incomplete] h show ?thesis by blast
qed

section \<open>The scenario\<close>

lemma mset_two:
  assumes "mset ys = mset [a, b]"
  shows "ys = [a, b] \<or> ys = [b, a]"
proof -
  from assms have "length ys = 2"
    by (metis length_Cons list.size(3) mset_eq_length numeral_2_eq_2)
  then obtain u v where ys: "ys = [u, v]"
    by (metis (no_types, opaque_lifting) One_nat_def Suc_length_conv length_0_conv numeral_2_eq_2)
  with assms show ?thesis
    by (auto simp: add_eq_conv_ex)
qed

text \<open>
  C9. On the three-record scenario, whatever the identifiers: the state filter StateA
  leaves the two StateA records, with 2 incidents, 5 deaths and a mean duration of 1.5;
  StateA together with the year 2023 leaves the Fire record alone; and without filters
  the ranking of states is StateB (10) followed by StateA (5), and nothing else.
\<close>

theorem scenario_results:
  "filtered_df (scenario i1 i2 i3) (PStr ''StateA'') (PStr ''All'') (PStr ''All'') (PStr ''All'') =
     [\<lparr>States = Some ''StateA'', Year = Some 2022, Month_Name = Some ''January'',
       Incident_Type = Some ''Flood'', Identifier = i1, Number_of_deaths = 5,
       Duration_days = Some 2\<rparr>,
      \<lparr>States = Some ''StateA'', Year = Some 2023, Month_Name = Some ''February'',
       Incident_Type = Some ''Fire'', Identifier = i2, Number_of_deaths = 0,
       Duration_days = Some 1\<rparr>] \<and>
   total_incidents (filtered_df (scenario i1 i2 i3)
     (PStr ''StateA'') (PStr ''All'') (PStr ''All'') (PStr ''All'')) = 2 \<and>
   total_deaths (filtered_df (scenario i1 i2 i3)
     (PStr ''StateA'') (PStr ''All'') (PStr ''All'') (PStr ''All'')) = 5 \<and>
   avg_duration (filtered_df (scenario i1 i2 i3)
     (PStr ''StateA'') (PStr ''All'') (PStr ''All'') (PStr ''All'')) = Some (3 / 2) \<and>
   filtered_df (scenario i1 i2 i3) (PStr ''StateA'') (PInt 2023) (PStr ''All'') (PStr ''All'') =
     [\<lparr>States = Some ''StateA'', Year = Some 2023, Month_Name = Some ''February'',
       Incident_Type = Some ''Fire'', Identifier = i2, Number_of_deaths = 0,
       Duration_days = Some 1\<rparr>] \<and>
   (fatalities_by_state (filtered_df (scenario i1 i2 i3)
       (PStr ''All'') (PStr ''All'') (PStr ''All'') (PStr ''All'')) ys \<longleftrightarrow>
    ys = [(''StateB'', 10), (''StateA'', 5)])"
proof -
  let ?D = "scenario i1 i2 i3"
  have A: "filtered_df ?D (PStr ''StateA'') (PStr ''All'') (PStr ''All'') (PStr ''All'') =
     [\<lparr>States = Some ''StateA'', Year = Some 2022, Month_Name = Some ''January'',
       Incident_Type = Some ''Flood'', Identifier = i1, Number_of_deaths = 5,
       Duration_days = Some 2\<rparr>,
      \<lparr>States = Some ''StateA'', Year = Some 2023, Month_Name = Some ''February'',
       Incident_Type = Some ''Fire'', Identifier = i2, Number_of_deaths = 0,
       Duration_days = Some 1\<rparr>]"
    by (simp add: filtered_df_def filter_state_def filter_year_def filter_month_def
        filter_incident_def eq_str_def scenario_def)
  have B: "filtered_df ?D (PStr ''StateA'') (PInt 2023) (PStr ''All'') (PStr ''All'') =
     [\<lparr>States = Some ''StateA'', Year = Some 2023, Month_Name = Some ''February'',
       Incident_Type = Some ''Fire'', Identifier = i2, Number_of_deaths = 0,
       Duration_days = Some 1\<rparr>]"
    by (simp add: filtered_df_def filter_state_def filter_year_def filter_month_def
        filter_incident_def eq_str_def eq_int_def scenario_def)
  have g: "deaths_by_state ?D = [(''StateA'', 5), (''StateB'', 10)]"
    by (simp add: deaths_by_state_def groupby_def scenario_def)
  have C: "fatalities_by_state (filtered_df ?D
       (PStr ''All'') (PStr ''All'') (PStr ''All'') (PStr ''All'')) ys \<longleftrightarrow>
    ys = [(''StateB'', 10), (''StateA'', 5)]"
  proof
    assume "fatalities_by_state (filtered_df ?D
       (PStr ''All'') (PStr ''All'') (PStr ''All'') (PStr ''All'')) ys"
    then have m: "mset ys = mset [(''StateA'', 5::int), (''StateB'', 10)]"
      and s: "sorted_wrt (\<lambda>a b. snd b \<le> snd a) ys"
      by (simp_all add: filtered_df_All fatalities_by_state_def sort_values_desc_def g)
    from mset_two [OF m] s show "ys = [(''StateB'', 10), (''StateA'', 5)]"
      by auto
  next
    assume "ys = [(''StateB'', 10), (''StateA'', 5)]"
    then show "fatalities_by_state (filtered_df ?D
       (PStr ''All'') (PStr ''All'') (PStr ''All'') (PStr ''All'')) ys"
      by (simp add: filtered_df_All fatalities_by_state_def sort_values_desc_def g)
  qed
  show ?thesis
    unfolding A B using C
    by (simp add: total_incidents_def total_deaths_def avg_duration_def mean_def)
qed

theorem scenario_results_witness:
  "fatalities_by_state
     (filtered_df (scenario (Some (1::nat)) (Some 2) (Some 3))
       (PStr ''All'') (PStr ''All'') (PStr ''All'') (PStr ''All''))
     [(''StateB'', 10), (''StateA'', 5)] \<and>
   total_incidents (filtered_df (scenario (Some (1::nat)) (Some 2) (Some 3))
     (PStr ''StateA'') (PStr ''All'') (PStr ''All'') (PStr ''All'')) = 2 \<and>
   total_deaths (filtered_df (scenario (Some (1::nat)) (Some 2) (Some 3))
     (PStr ''StateA'') (PStr ''All'') (PStr ''All'') (PStr ''All'')) = 5 \<and>
   avg_duration (filtered_df (scenario (Some (1::nat)) (Some 2) (Some 3))
     (PStr ''StateA'') (PStr ''All'') (PStr ''All'') (PStr ''All'')) = Some (3 / 2)"
  using scenario_results [of "Some (1::nat)" "Some 2" "Some 3"
      "[(''StateB'', 10), (''StateA'', 5)]"]
  by blast

end
